theory Spec2Isabelle
  imports Main
begin

section \<open>Python values and exceptions\<close>

text \<open>
  The module \<^verbatim>\<open>oauth2client/clientsecrets.py\<close> is Python 2 code working on whatever
  \<^verbatim>\<open>json.load\<close> returns: \<^verbatim>\<open>None\<close>, a boolean, a number, a text, a list or a dict.
  A dict is modelled by the list of its items in iteration order (\<^verbatim>\<open>obj.items()\<close>), a
  text by the list of its characters. Floats are opaque to the module. A Python name with
  a leading underscore, such as \<^verbatim>\<open>_loadfile\<close>, is written with the prefix \<open>priv_\<close>.
\<close>

typedecl pyfloat

datatype json =
    JNull
  | JBool bool
  | JInt int
  | JFloat pyfloat
  | JStr string
  | JArr "json list"
  | JObj "(string \<times> json) list"

text \<open>
  The exceptions that can leave the module. \<^verbatim>\<open>InvalidClientSecretsError\<close> is the only
  class the module raises itself, with its message; the others are Python's built-in
  exceptions raised by the operations the module applies to its argument.
\<close>

datatype exn =
    InvalidClientSecretsError string
  | TypeError
  | AttributeError
  | KeyError
  | IndexError
  | ValueError
  | IOError
  | StopIteration

text \<open>
  The five \<^verbatim>\<open>raise InvalidClientSecretsError(...)\<close> statements of the module, with the
  message each one builds. The specification names them as error kinds.
\<close>

definition MalformedDocument :: exn where
  "MalformedDocument = InvalidClientSecretsError ''Invalid file format.''"

definition UnknownClientType :: "string \<Rightarrow> exn" where
  "UnknownClientType client_type =
     InvalidClientSecretsError (''Unknown client type: '' @ client_type @ ''.'')"

definition MissingField :: "string \<Rightarrow> string \<Rightarrow> exn" where
  "MissingField prop_name client_type =
     InvalidClientSecretsError
       (''Missing property '' @ [CHR 0x22] @ prop_name @ [CHR 0x22]
         @ '' in a client type of '' @ [CHR 0x22] @ client_type @ [CHR 0x22] @ ''.'')"

definition PlaceholderNotConfigured :: "string \<Rightarrow> exn" where
  "PlaceholderNotConfigured prop_name =
     InvalidClientSecretsError
       (''Property '' @ [CHR 0x22] @ prop_name @ [CHR 0x22] @ '' is not configured.'')"

definition FileNotFound :: "string \<Rightarrow> exn" where
  "FileNotFound shown =
     InvalidClientSecretsError (''File not found: '' @ [CHR 0x22] @ shown @ [CHR 0x22])"

text \<open>Whether an outcome is an exception of the module's own class.\<close>

fun validation_error :: "exn + 'a \<Rightarrow> bool" where
  "validation_error (Inl (InvalidClientSecretsError msg)) = True"
| "validation_error _ = False"

section \<open>Schema table\<close>

definition TYPE_WEB :: string where
  "TYPE_WEB = ''web''"

definition TYPE_INSTALLED :: string where
  "TYPE_INSTALLED = ''installed''"

record client_schema =
  required :: "string list"
  string_props :: "string list"

definition VALID_CLIENT :: "(string \<times> client_schema) list" where
  "VALID_CLIENT =
     [(TYPE_WEB,
        \<lparr>required = [''client_id'', ''client_secret'', ''redirect_uris'', ''auth_uri'', ''token_uri''],
         string_props = [''client_id'', ''client_secret'']\<rparr>),
      (TYPE_INSTALLED,
        \<lparr>required = [''client_id'', ''client_secret'', ''redirect_uris'', ''auth_uri'', ''token_uri''],
         string_props = [''client_id'', ''client_secret'']\<rparr>)]"

section \<open>The operations Python applies to a value\<close>

text \<open>\<^verbatim>\<open>len(obj)\<close>: defined on texts, lists and dicts; a \<^verbatim>\<open>TypeError\<close> otherwise.\<close>

fun py_len :: "json \<Rightarrow> exn + nat" where
  "py_len (JStr s) = Inr (length s)"
| "py_len (JArr xs) = Inr (length xs)"
| "py_len (JObj kvs) = Inr (length kvs)"
| "py_len _ = Inl TypeError"

text \<open>\<^verbatim>\<open>obj.keys()\<close>: only a dict has the attribute.\<close>

fun py_keys :: "json \<Rightarrow> exn + string list" where
  "py_keys (JObj kvs) = Inr (map fst kvs)"
| "py_keys _ = Inl AttributeError"

text \<open>\<^verbatim>\<open>xs[0]\<close> on a list.\<close>

fun py_first :: "'a list \<Rightarrow> exn + 'a" where
  "py_first [] = Inl IndexError"
| "py_first (x # _) = Inr x"

text \<open>\<^verbatim>\<open>needle in s\<close> on two texts: \<^verbatim>\<open>needle\<close> occurs in \<^verbatim>\<open>s\<close> as a contiguous run.\<close>

fun starts_with :: "string \<Rightarrow> string \<Rightarrow> bool" where
  "starts_with [] s = True"
| "starts_with (c # cs) [] = False"
| "starts_with (c # cs) (d # ds) = (c = d \<and> starts_with cs ds)"

fun occurs_in :: "string \<Rightarrow> string \<Rightarrow> bool" where
  "occurs_in needle [] = (needle = [])"
| "occurs_in needle (c # cs) = (starts_with needle (c # cs) \<or> occurs_in needle cs)"

text \<open>
  \<^verbatim>\<open>name in v\<close>: key membership on a dict, element membership on a list, substring
  test on a text; a \<^verbatim>\<open>TypeError\<close> on a value that is not iterable.
\<close>

fun py_contains :: "string \<Rightarrow> json \<Rightarrow> exn + bool" where
  "py_contains name (JObj kvs) = Inr (name \<in> set (map fst kvs))"
| "py_contains name (JArr xs) = Inr (JStr name \<in> set xs)"
| "py_contains name (JStr s) = Inr (occurs_in name s)"
| "py_contains name _ = Inl TypeError"

text \<open>
  \<^verbatim>\<open>v[name]\<close> with a text \<^verbatim>\<open>name\<close>: a lookup on a dict (\<^verbatim>\<open>KeyError\<close> when the key is
  absent), a \<^verbatim>\<open>TypeError\<close> on every other value.
\<close>

fun py_getitem :: "json \<Rightarrow> string \<Rightarrow> exn + json" where
  "py_getitem (JObj kvs) name =
     (case map_of kvs name of None \<Rightarrow> Inl KeyError | Some v \<Rightarrow> Inr v)"
| "py_getitem _ name = Inl TypeError"

text \<open>\<^verbatim>\<open>v.startswith(prefix)\<close>: only a text has the method.\<close>

fun py_startswith :: "json \<Rightarrow> string \<Rightarrow> exn + bool" where
  "py_startswith (JStr s) pre = Inr (starts_with pre s)"
| "py_startswith _ pre = Inl AttributeError"

section \<open>The validator\<close>

text \<open>The first loop of \<^verbatim>\<open>_validate_clientsecrets\<close>, over the \<^verbatim>\<open>required\<close> list.\<close>

fun check_required :: "string list \<Rightarrow> json \<Rightarrow> string \<Rightarrow> exn + unit" where
  "check_required [] client_info client_type = Inr ()"
| "check_required (prop_name # rest) client_info client_type =
     (case py_contains prop_name client_info of
        Inl e \<Rightarrow> Inl e
      | Inr present \<Rightarrow>
          if \<not> present then
            Inl (MissingField prop_name client_type)
          else check_required rest client_info client_type)"

text \<open>The second loop, over the \<^verbatim>\<open>string\<close> list.\<close>

fun check_string :: "string list \<Rightarrow> json \<Rightarrow> exn + unit" where
  "check_string [] client_info = Inr ()"
| "check_string (prop_name # rest) client_info =
     (case py_getitem client_info prop_name of
        Inl e \<Rightarrow> Inl e
      | Inr v \<Rightarrow>
          (case py_startswith v ''[['' of
             Inl e \<Rightarrow> Inl e
           | Inr placeholder \<Rightarrow>
               if placeholder then
                 Inl (PlaceholderNotConfigured prop_name)
               else check_string rest client_info))"

text \<open>
  \<^verbatim>\<open>_validate_clientsecrets(obj)\<close>. Each \<^verbatim>\<open>case\<close> on \<open>Inl\<close> is an exception leaving the
  function at that statement.
\<close>

definition priv_validate_clientsecrets :: "json \<Rightarrow> exn + (string \<times> json)" where
  "priv_validate_clientsecrets obj =
     (if obj = JNull then Inl MalformedDocument
      else case py_len obj of
        Inl e \<Rightarrow> Inl e
      | Inr n \<Rightarrow>
          if n \<noteq> 1 then Inl MalformedDocument
          else (case py_keys obj of
            Inl e \<Rightarrow> Inl e
          | Inr ks \<Rightarrow>
              (case py_first ks of
                 Inl e \<Rightarrow> Inl e
               | Inr client_type \<Rightarrow>
                   if client_type \<notin> set (map fst VALID_CLIENT) then
                     Inl (UnknownClientType client_type)
                   else (case py_getitem obj client_type of
                     Inl e \<Rightarrow> Inl e
                   | Inr client_info \<Rightarrow>
                       (case map_of VALID_CLIENT client_type of
                          None \<Rightarrow> Inl KeyError
                        | Some schema \<Rightarrow>
                            (case check_required (required schema) client_info client_type of
                               Inl e \<Rightarrow> Inl e
                             | Inr _ \<Rightarrow>
                                 (case check_string (string_props schema) client_info of
                                    Inl e \<Rightarrow> Inl e
                                  | Inr _ \<Rightarrow> Inr (client_type, client_info))))))))"

section \<open>Files, streams and the JSON decoder\<close>

text \<open>
  The world the loaders act on. A path names a file that cannot be opened, one that opens
  but cannot be read (both raise \<^verbatim>\<open>IOError\<close>), or one with a text. A stream is an
  \<^verbatim>\<open>io.IOBase\<close> object on the heap: its \<^verbatim>\<open>closed\<close> flag, its \<^verbatim>\<open>name\<close> attribute when it
  has one, what \<^verbatim>\<open>str\<close> shows for it, and the text that \<^verbatim>\<open>read()\<close> would return
  (\<open>None\<close> when reading raises \<^verbatim>\<open>IOError\<close>). \<open>opened\<close> logs every call of
  \<^verbatim>\<open>file(path, 'r')\<close>. The argument \<^verbatim>\<open>filename_or_io\<close> is a path, or the address of a
  stream, for which \<^verbatim>\<open>isinstance(filename_or_io, io.IOBase)\<close> holds.
\<close>

datatype fs_entry = OpenFails | ReadFails | Contents string

record stream =
  closed :: bool
  stream_name :: "string option"
  stream_str :: string
  unread :: "string option"

record world =
  fs :: "string \<Rightarrow> fs_entry"
  streams :: "nat \<Rightarrow> stream"
  opened :: "string list"

datatype source = Path string | Stream nat

text \<open>
  \<^verbatim>\<open>json.loads\<close> is the standard library's: a partial function from texts to values,
  raising \<^verbatim>\<open>ValueError\<close> where it is undefined. It is a parameter of every loader.
\<close>

type_synonym decoder = "string \<rightharpoonup> json"

definition json_loads :: "decoder \<Rightarrow> string \<Rightarrow> exn + json" where
  "json_loads decode s = (case decode s of None \<Rightarrow> Inl ValueError | Some obj \<Rightarrow> Inr obj)"

text \<open>
  \<^verbatim>\<open>fp.read()\<close>: a \<^verbatim>\<open>ValueError\<close> on a closed stream, an \<^verbatim>\<open>IOError\<close> on one that
  cannot be read; otherwise the unread text, and nothing is left to read.
\<close>

definition stream_read :: "stream \<Rightarrow> (exn + string) \<times> stream" where
  "stream_read st =
     (if closed st then (Inl ValueError, st)
      else case unread st of
        None \<Rightarrow> (Inl IOError, st)
      | Some s \<Rightarrow> (Inr s, st\<lparr>unread := Some []\<rparr>))"

text \<open>\<^verbatim>\<open>json.load(fp)\<close> is \<^verbatim>\<open>json.loads(fp.read())\<close>.\<close>

definition json_load :: "decoder \<Rightarrow> nat \<Rightarrow> world \<Rightarrow> (exn + json) \<times> world" where
  "json_load decode fp w =
     (case stream_read (streams w fp) of
        (r, st) \<Rightarrow>
          (case r of Inl e \<Rightarrow> Inl e | Inr s \<Rightarrow> json_loads decode s,
           w\<lparr>streams := (streams w)(fp := st)\<rparr>))"

definition stream_close :: "nat \<Rightarrow> world \<Rightarrow> world" where
  "stream_close fp w = w\<lparr>streams := (streams w)(fp := (streams w fp)\<lparr>closed := True\<rparr>)\<rparr>"

text \<open>\<^verbatim>\<open>'%s' % filename_or_io\<close>: the path itself, or what \<^verbatim>\<open>str\<close> shows for the stream.\<close>

definition source_str :: "source \<Rightarrow> world \<Rightarrow> string" where
  "source_str filename_or_io w =
     (case filename_or_io of Path p \<Rightarrow> p | Stream fp \<Rightarrow> stream_str (streams w fp))"

section \<open>The loaders\<close>

definition load :: "decoder \<Rightarrow> nat \<Rightarrow> world \<Rightarrow> (exn + (string \<times> json)) \<times> world" where
  "load decode fp w =
     (case json_load decode fp w of
        (Inl e, w') \<Rightarrow> (Inl e, w')
      | (Inr obj, w') \<Rightarrow> (priv_validate_clientsecrets obj, w'))"

definition loads :: "decoder \<Rightarrow> string \<Rightarrow> exn + (string \<times> json)" where
  "loads decode s =
     (case json_loads decode s of
        Inl e \<Rightarrow> Inl e
      | Inr obj \<Rightarrow> priv_validate_clientsecrets obj)"

text \<open>
  The body of the outer \<^verbatim>\<open>try\<close> of \<^verbatim>\<open>_loadfile\<close>: take the stream as it is, or open
  the path; decode; close in the \<^verbatim>\<open>finally\<close> clause whatever happened. The file object
  opened for a path is local to the call, so closing it leaves no trace in the world.
\<close>

definition read_source :: "decoder \<Rightarrow> source \<Rightarrow> world \<Rightarrow> (exn + json) \<times> world" where
  "read_source decode filename_or_io w =
     (case filename_or_io of
        Stream fp \<Rightarrow>
          (case json_load decode fp w of (r, w') \<Rightarrow> (r, stream_close fp w'))
      | Path p \<Rightarrow>
          (let w' = w\<lparr>opened := opened w @ [p]\<rparr> in
           case fs w p of
             OpenFails \<Rightarrow> (Inl IOError, w')
           | ReadFails \<Rightarrow> (Inl IOError, w')
           | Contents s \<Rightarrow> (json_loads decode s, w')))"

text \<open>\<^verbatim>\<open>_loadfile(filename_or_io)\<close>: only \<^verbatim>\<open>IOError\<close> is caught.\<close>

definition priv_loadfile :: "decoder \<Rightarrow> source \<Rightarrow> world \<Rightarrow> (exn + (string \<times> json)) \<times> world" where
  "priv_loadfile decode filename_or_io w =
     (case read_source decode filename_or_io w of
        (Inl e, w') \<Rightarrow>
          if e = IOError then (Inl (FileNotFound (source_str filename_or_io w')), w')
          else (Inl e, w')
      | (Inr obj, w') \<Rightarrow> (priv_validate_clientsecrets obj, w'))"

text \<open>\<^verbatim>\<open>_get_name(filename_or_io)\<close>: a stream without a \<^verbatim>\<open>name\<close> attribute raises.\<close>

definition priv_get_name :: "source \<Rightarrow> world \<Rightarrow> exn + string" where
  "priv_get_name filename_or_io w =
     (case filename_or_io of
        Stream fp \<Rightarrow>
          (case stream_name (streams w fp) of None \<Rightarrow> Inl AttributeError | Some n \<Rightarrow> Inr n)
      | Path p \<Rightarrow> Inr p)"

section \<open>The cache-backed loader\<close>

text \<open>
  The cache collaborator is any object with \<^verbatim>\<open>get(key, namespace=ns)\<close> and
  \<^verbatim>\<open>set(key, value, namespace=ns)\<close>: its two methods over a state of its own, which
  \<^verbatim>\<open>set\<close> updates. The \<^verbatim>\<open>cache\<close> argument of \<^verbatim>\<open>loadfile\<close> is \<open>None\<close> when it tests
  false (as the default \<^verbatim>\<open>None\<close> does) and \<open>Some c\<close> for a collaborator in state \<open>c\<close>.
\<close>

record 'c cache_client =
  cache_get :: "'c \<Rightarrow> string \<Rightarrow> string \<Rightarrow> json"
  cache_set :: "'c \<Rightarrow> string \<Rightarrow> json \<Rightarrow> string \<Rightarrow> 'c"

definition SECRET_NAMESPACE :: string where
  "SECRET_NAMESPACE = ''oauth2client:secrets#ns''"

text \<open>
  \<^verbatim>\<open>obj.iteritems().next()\<close>: the first item of a dict, \<^verbatim>\<open>StopIteration\<close> on an empty
  one; no other value has the method.
\<close>

fun py_iteritems_next :: "json \<Rightarrow> exn + (string \<times> json)" where
  "py_iteritems_next (JObj []) = Inl StopIteration"
| "py_iteritems_next (JObj (kv # _)) = Inr kv"
| "py_iteritems_next _ = Inl AttributeError"

text \<open>
  \<^verbatim>\<open>loadfile(filename_or_io, cache=None)\<close>. The miss test is \<^verbatim>\<open>obj is None\<close>;
  \<^verbatim>\<open>_get_name\<close> is evaluated once for \<^verbatim>\<open>get\<close> and once more for \<^verbatim>\<open>set\<close>.
\<close>

definition loadfile ::
  "decoder \<Rightarrow> 'c cache_client \<Rightarrow> source \<Rightarrow> 'c option \<Rightarrow> world
     \<Rightarrow> (exn + (string \<times> json)) \<times> world \<times> 'c option" where
  "loadfile decode client filename_or_io cache w =
     (case cache of
        None \<Rightarrow>
          (case priv_loadfile decode filename_or_io w of (r, w') \<Rightarrow> (r, w', None))
      | Some c \<Rightarrow>
          (case priv_get_name filename_or_io w of
             Inl e \<Rightarrow> (Inl e, w, Some c)
           | Inr key \<Rightarrow>
               (let obj = cache_get client c key SECRET_NAMESPACE in
                if obj = JNull then
                  (case priv_loadfile decode filename_or_io w of
                     (Inl e, w') \<Rightarrow> (Inl e, w', Some c)
                   | (Inr (client_type, client_info), w') \<Rightarrow>
                       (let obj' = JObj [(client_type, client_info)] in
                        case priv_get_name filename_or_io w' of
                          Inl e \<Rightarrow> (Inl e, w', Some c)
                        | Inr key' \<Rightarrow>
                            (py_iteritems_next obj', w',
                             Some (cache_set client c key' obj' SECRET_NAMESPACE))))
                else (py_iteritems_next obj, w, Some c))))"

section \<open>Example documents\<close>

text \<open>The two example documents of the specification, as \<^verbatim>\<open>json.loads\<close> returns them.\<close>

definition installed_info :: json where
  "installed_info =
     JObj [(''client_id'', JStr ''id1''), (''client_secret'', JStr ''s1''),
           (''redirect_uris'', JArr []), (''auth_uri'', JStr ''https://a''),
           (''token_uri'', JStr ''https://b'')]"

definition installed_doc :: json where
  "installed_doc = JObj [(''installed'', installed_info)]"

definition placeholder_doc :: json where
  "placeholder_doc =
     JObj [(''web'',
       JObj [(''client_id'', JStr ''abc''), (''client_secret'', JStr ''[[secret]]''),
             (''redirect_uris'', JArr []), (''auth_uri'', JStr ''https://x''),
             (''token_uri'', JStr ''https://y'')])]"

text \<open>
  The text of the first example, and a decoder defined on the texts used below, where it
  agrees with \<^verbatim>\<open>json.loads\<close>; on the truncated text \<^verbatim>\<open>{\<close> it is undefined, as
  \<^verbatim>\<open>json.loads\<close> raises there.
\<close>

definition installed_text :: string where
  \<open>installed_text = ''{"installed": {"client_id": "id1", "client_secret": "s1", "redirect_uris": [], "auth_uri": "https://a", "token_uri": "https://b"}}''\<close>

definition example_decode :: decoder where
  "example_decode = [installed_text \<mapsto> installed_doc, ''{}'' \<mapsto> JObj []]"

text \<open>
  A world with the example stored under one path, a truncated text under another, and
  open streams: stream 0 carries a \<^verbatim>\<open>name\<close>, stream 2 holds the truncated text, stream 3
  the empty object, the others the example.
\<close>

definition example_world :: world where
  "example_world =
     \<lparr>fs = (\<lambda>p. if p = ''client_secrets.json'' then Contents installed_text
                else if p = ''broken.json'' then Contents ''{''
                else OpenFails),
      streams = (\<lambda>fp. \<lparr>closed = False,
                        stream_name = (if fp = 0 then Some ''client_secrets.json'' else None),
                        stream_str = ''<_io.TextIOWrapper>'',
                        unread = Some (if fp = 2 then ''{'' else if fp = 3 then ''{}'' else installed_text)\<rparr>),
      opened = []\<rparr>"

text \<open>
  A cache collaborator in the manner of App Engine's memcache, which the docstring of
  \<^verbatim>\<open>loadfile\<close> names: a table from namespace and key to the stored value, \<^verbatim>\<open>get\<close>
  returning \<^verbatim>\<open>None\<close> for a key that was never set.
\<close>

definition table_cache :: "(string \<times> string \<Rightarrow> json) cache_client" where
  "table_cache =
     \<lparr>cache_get = (\<lambda>c key ns. c (ns, key)),
      cache_set = (\<lambda>c key v ns. c((ns, key) := v))\<rparr>"

definition empty_table :: "string \<times> string \<Rightarrow> json" where
  "empty_table = (\<lambda>_. JNull)"

section \<open>Properties of the validator\<close>

lemma valid_client_keys: "set (map fst VALID_CLIENT) = {''web'', ''installed''}"
  by (auto simp: VALID_CLIENT_def TYPE_WEB_def TYPE_INSTALLED_def)

lemma map_of_valid_client:
  "map_of VALID_CLIENT t = Some schema \<Longrightarrow> t \<in> set (map fst VALID_CLIENT)"
  by (metis map_of_eq_None_iff option.distinct(1) set_map)

lemma map_of_valid_client_web:
  "map_of VALID_CLIENT ''web'' =
     Some \<lparr>required = [''client_id'', ''client_secret'', ''redirect_uris'', ''auth_uri'', ''token_uri''],
           string_props = [''client_id'', ''client_secret'']\<rparr>"
  by (simp add: VALID_CLIENT_def TYPE_WEB_def)

lemma map_of_valid_client_installed:
  "map_of VALID_CLIENT ''installed'' =
     Some \<lparr>required = [''client_id'', ''client_secret'', ''redirect_uris'', ''auth_uri'', ''token_uri''],
           string_props = [''client_id'', ''client_secret'']\<rparr>"
  by (simp add: VALID_CLIENT_def TYPE_WEB_def TYPE_INSTALLED_def)

lemma string_props_schema:
  "map_of VALID_CLIENT t = Some schema \<Longrightarrow> string_props schema = [''client_id'', ''client_secret'']"
  by (auto simp: VALID_CLIENT_def split: if_splits)

text \<open>The first loop passes when every name is found, and stops at the first one that is not.\<close>

lemma check_required_present:
  "\<forall>p\<in>set ps. py_contains p v = Inr True \<Longrightarrow> check_required ps v t = Inr ()"
  by (induction ps) simp_all

lemma check_required_missing:
  "find (\<lambda>q. q \<notin> fst ` set m) ps = Some p
     \<Longrightarrow> check_required ps (JObj m) t = Inl (MissingField p t)"
  by (induction ps) (auto split: if_splits)

text \<open>The second loop passes on texts without the marker, and stops at the first text with it.\<close>

lemma check_string_ok:
  "\<forall>p\<in>set ps. \<exists>s. map_of m p = Some (JStr s) \<and> \<not> starts_with ''[['' s
     \<Longrightarrow> check_string ps (JObj m) = Inr ()"
  by (induction ps) auto

lemma check_string_placeholder:
  "\<forall>q\<in>set pre. \<exists>s. map_of m q = Some (JStr s) \<and> \<not> starts_with ''[['' s
     \<Longrightarrow> map_of m p = Some (JStr s) \<Longrightarrow> starts_with ''[['' s
     \<Longrightarrow> check_string (pre @ p # post) (JObj m) = Inl (PlaceholderNotConfigured p)"
  by (induction pre) auto

text \<open>On a dict with the single key of a supported type, only the two loops remain.\<close>

lemma validate_single:
  "map_of VALID_CLIENT t = Some schema \<Longrightarrow>
   priv_validate_clientsecrets (JObj [(t, v)]) =
     (case check_required (required schema) v t of
        Inl e \<Rightarrow> Inl e
      | Inr _ \<Rightarrow> (case check_string (string_props schema) v of
                   Inl e \<Rightarrow> Inl e
                 | Inr _ \<Rightarrow> Inr (t, v)))"
  using map_of_valid_client[of t schema]
  by (simp add: priv_validate_clientsecrets_def del: set_map)

text \<open>
  What the first statement of the validator rejects: \<^verbatim>\<open>None\<close>, and every text, list or
  dict whose length is not one.
\<close>

lemma validate_malformed:
  "obj = JNull \<or> (\<exists>n. py_len obj = Inr n \<and> n \<noteq> 1)
     \<Longrightarrow> priv_validate_clientsecrets obj = Inl MalformedDocument"
  by (auto simp: priv_validate_clientsecrets_def)

text \<open>
  C1. The claim: every parsed value that is null, is not an object, or does not have
  exactly one top-level key makes the validator fail with \<open>MalformedDocument\<close>, never
  with another exception, also for a one-element array and a one-character text.
  The code does not do this: a value of length one passes \<^verbatim>\<open>len(obj) != 1\<close> whatever
  its type, and \<^verbatim>\<open>obj.keys()\<close> then raises \<^verbatim>\<open>AttributeError\<close> on a list or a text;
  on a number \<^verbatim>\<open>len(obj)\<close> itself raises \<^verbatim>\<open>TypeError\<close>.
\<close>

theorem validate_non_object_crashes:
  "priv_validate_clientsecrets (JArr [JInt 1]) = Inl AttributeError
   \<and> priv_validate_clientsecrets (JStr ''a'') = Inl AttributeError
   \<and> priv_validate_clientsecrets (JInt 5) = Inl TypeError
   \<and> \<not> validation_error (priv_validate_clientsecrets (JArr [JInt 1]))"
  by (simp add: priv_validate_clientsecrets_def)

text \<open>
  C3. For every supported client type \<open>t\<close> and every document that is a dict with the
  single key \<open>t\<close> whose value is a dict \<open>m\<close> holding all of \<open>t\<close>'s required fields, with
  texts that do not start with \<^verbatim>\<open>[[\<close> under the \<^verbatim>\<open>string\<close> fields, the validator returns
  the pair of \<open>t\<close> and \<open>m\<close>, unchanged.
\<close>

theorem validate_accepts:
  assumes "map_of VALID_CLIENT t = Some schema"
    and "\<forall>p\<in>set (required schema). p \<in> fst ` set m"
    and "\<forall>p\<in>set (string_props schema). \<exists>s. map_of m p = Some (JStr s) \<and> \<not> starts_with ''[['' s"
  shows "priv_validate_clientsecrets (JObj [(t, JObj m)]) = Inr (t, JObj m)"
  using assms(2) check_required_present[of "required schema" "JObj m" t]
    check_string_ok[OF assms(3)]
  by (simp add: validate_single[OF assms(1)])

theorem validate_accepts_witness:
  "priv_validate_clientsecrets installed_doc = Inr (''installed'', installed_info)"
proof -
  let ?m = "[(''client_id'', JStr ''id1''), (''client_secret'', JStr ''s1''),
             (''redirect_uris'', JArr []), (''auth_uri'', JStr ''https://a''),
             (''token_uri'', JStr ''https://b'')]"
  let ?schema = "\<lparr>required = [''client_id'', ''client_secret'', ''redirect_uris'', ''auth_uri'', ''token_uri''],
                  string_props = [''client_id'', ''client_secret'']\<rparr>"
  have h1: "map_of VALID_CLIENT ''installed'' = Some ?schema"
    by (rule map_of_valid_client_installed)
  have h2: "\<forall>p\<in>set (required ?schema). p \<in> fst ` set ?m"
    by simp
  have h3: "\<forall>p\<in>set (string_props ?schema). \<exists>s. map_of ?m p = Some (JStr s) \<and> \<not> starts_with ''[['' s"
    by simp
  show ?thesis
    using validate_accepts[OF h1 h2 h3]
    by (simp add: installed_doc_def installed_info_def)
qed

text \<open>
  C4. The claim: every single-key document of a supported type whose associated value
  lacks a required field fails with \<open>MissingField\<close>. As stated it fails where the
  associated value is not iterable: \<^verbatim>\<open>'client_id' not in None\<close> raises \<^verbatim>\<open>TypeError\<close>.
\<close>

theorem missing_field_counterexample:
  "priv_validate_clientsecrets (JObj [(''web'', JNull)]) = Inl TypeError
   \<and> \<not> validation_error (priv_validate_clientsecrets (JObj [(''web'', JNull)]))"
  by (simp add: validate_single[OF map_of_valid_client_web])

text \<open>
  C4, amended. Where the associated value is a dict \<open>m\<close> that lacks at least one field of
  the type's required list, the validator fails with \<open>MissingField\<close>, naming the first
  field of the required list that \<open>m\<close> lacks and the type, whatever other fields \<open>m\<close> has
  and whatever their values are.
\<close>

theorem missing_field_reported:
  assumes "map_of VALID_CLIENT t = Some schema"
    and "\<exists>q\<in>set (required schema). q \<notin> fst ` set m"
  shows "\<exists>p. find (\<lambda>q. q \<notin> fst ` set m) (required schema) = Some p
           \<and> priv_validate_clientsecrets (JObj [(t, JObj m)]) = Inl (MissingField p t)"
proof -
  from assms(2) obtain p where p: "find (\<lambda>q. q \<notin> fst ` set m) (required schema) = Some p"
    by (cases "find (\<lambda>q. q \<notin> fst ` set m) (required schema)") (auto simp: find_None_iff)
  from check_required_missing[OF p]
  have "priv_validate_clientsecrets (JObj [(t, JObj m)]) = Inl (MissingField p t)"
    by (simp add: validate_single[OF assms(1)])
  with p show ?thesis by blast
qed

theorem missing_field_reported_witness:
  "priv_validate_clientsecrets
     (JObj [(''web'', JObj [(''client_id'', JInt 7), (''client_secret'', JStr ''[[s''),
                            (''redirect_uris'', JArr []), (''token_uri'', JNull)])])
   = Inl (MissingField ''auth_uri'' ''web'')"
proof -
  let ?m = "[(''client_id'', JInt 7), (''client_secret'', JStr ''[[s''),
             (''redirect_uris'', JArr []), (''token_uri'', JNull)]"
  let ?schema = "\<lparr>required = [''client_id'', ''client_secret'', ''redirect_uris'', ''auth_uri'', ''token_uri''],
                  string_props = [''client_id'', ''client_secret'']\<rparr>"
  have h1: "map_of VALID_CLIENT ''web'' = Some ?schema"
    by (rule map_of_valid_client_web)
  have h2: "\<exists>q\<in>set (required ?schema). q \<notin> fst ` set ?m"
    by simp
  from missing_field_reported[OF h1 h2] show ?thesis
    by simp
qed

text \<open>
  C5. The claim: with all required fields present, a \<^verbatim>\<open>client_id\<close> or \<^verbatim>\<open>client_secret\<close>
  that is a text starting with \<^verbatim>\<open>[[\<close> always gives \<open>PlaceholderNotConfigured\<close>. As stated
  it fails where \<^verbatim>\<open>client_secret\<close> holds the marker and \<^verbatim>\<open>client_id\<close> is not a text:
  the loop reaches \<^verbatim>\<open>client_id\<close> first, and a number has no \<^verbatim>\<open>startswith\<close>.
\<close>

theorem placeholder_counterexample:
  "priv_validate_clientsecrets
     (JObj [(''web'', JObj [(''client_id'', JInt 5), (''client_secret'', JStr ''[[secret]]''),
                            (''redirect_uris'', JArr []), (''auth_uri'', JStr ''https://x''),
                            (''token_uri'', JStr ''https://y'')])])
   = Inl AttributeError"
  by (simp add: validate_single[OF map_of_valid_client_web])

text \<open>
  C5, amended. For a document with the single key of a supported type whose value is a
  dict \<open>m\<close> with all required fields: if \<^verbatim>\<open>client_id\<close> is a text starting with \<^verbatim>\<open>[[\<close>, the
  validator fails with \<open>PlaceholderNotConfigured\<close> naming \<^verbatim>\<open>client_id\<close>; if \<^verbatim>\<open>client_id\<close>
  is a text that does not start with \<^verbatim>\<open>[[\<close> and \<^verbatim>\<open>client_secret\<close> is a text that does, it
  fails with \<open>PlaceholderNotConfigured\<close> naming \<^verbatim>\<open>client_secret\<close>.
\<close>

theorem placeholder_rejected:
  assumes "map_of VALID_CLIENT t = Some schema"
    and "\<forall>q\<in>set (required schema). q \<in> fst ` set m"
  shows "(map_of m ''client_id'' = Some (JStr s) \<and> starts_with ''[['' s
            \<longrightarrow> priv_validate_clientsecrets (JObj [(t, JObj m)])
                  = Inl (PlaceholderNotConfigured ''client_id''))
       \<and> (map_of m ''client_id'' = Some (JStr s1) \<and> \<not> starts_with ''[['' s1
            \<and> map_of m ''client_secret'' = Some (JStr s2) \<and> starts_with ''[['' s2
            \<longrightarrow> priv_validate_clientsecrets (JObj [(t, JObj m)])
                  = Inl (PlaceholderNotConfigured ''client_secret''))"
proof -
  have req: "check_required (required schema) (JObj m) t = Inr ()"
    using assms(2) by (intro check_required_present) simp
  have props: "string_props schema = [''client_id'', ''client_secret'']"
    by (rule string_props_schema[OF assms(1)])
  have first: "check_string (string_props schema) (JObj m) = Inl (PlaceholderNotConfigured ''client_id'')"
    if "map_of m ''client_id'' = Some (JStr s)" "starts_with ''[['' s"
    using check_string_placeholder[of "[]" m "''client_id''" s "[''client_secret'']"] that props
    by simp
  have second: "check_string (string_props schema) (JObj m) = Inl (PlaceholderNotConfigured ''client_secret'')"
    if "map_of m ''client_id'' = Some (JStr s1)" "\<not> starts_with ''[['' s1"
       "map_of m ''client_secret'' = Some (JStr s2)" "starts_with ''[['' s2"
    using check_string_placeholder[of "[''client_id'']" m "''client_secret''" s2 "[]"] that props
    by simp
  show ?thesis
    using first second by (simp add: validate_single[OF assms(1)] req)
qed

theorem placeholder_rejected_witness:
  "priv_validate_clientsecrets placeholder_doc = Inl (PlaceholderNotConfigured ''client_secret'')
   \<and> priv_validate_clientsecrets
         (JObj [(''web'', JObj [(''client_id'', JStr ''[[id]]''), (''client_secret'', JInt 5),
                                (''redirect_uris'', JArr []), (''auth_uri'', JStr ''https://x''),
                                (''token_uri'', JStr ''https://y'')])])
       = Inl (PlaceholderNotConfigured ''client_id'')"
proof -
  let ?m = "[(''client_id'', JStr ''abc''), (''client_secret'', JStr ''[[secret]]''),
             (''redirect_uris'', JArr []), (''auth_uri'', JStr ''https://x''),
             (''token_uri'', JStr ''https://y'')]"
  let ?m' = "[(''client_id'', JStr ''[[id]]''), (''client_secret'', JInt 5),
              (''redirect_uris'', JArr []), (''auth_uri'', JStr ''https://x''),
              (''token_uri'', JStr ''https://y'')]"
  let ?schema = "\<lparr>required = [''client_id'', ''client_secret'', ''redirect_uris'', ''auth_uri'', ''token_uri''],
                  string_props = [''client_id'', ''client_secret'']\<rparr>"
  have h1: "map_of VALID_CLIENT ''web'' = Some ?schema"
    by (rule map_of_valid_client_web)
  have h2: "\<forall>q\<in>set (required ?schema). q \<in> fst ` set ?m"
    by simp
  have h2': "\<forall>q\<in>set (required ?schema). q \<in> fst ` set ?m'"
    by simp
  from placeholder_rejected[OF h1 h2, of "''[[x''" "''abc''" "''[[secret]]''"]
  have a: "priv_validate_clientsecrets placeholder_doc = Inl (PlaceholderNotConfigured ''client_secret'')"
    by (simp add: placeholder_doc_def)
  from placeholder_rejected[OF h1 h2', of "''[[id]]''" "[]" "[]"]
  have b: "priv_validate_clientsecrets (JObj [(''web'', JObj ?m')])
             = Inl (PlaceholderNotConfigured ''client_id'')"
    by simp
  from a b show ?thesis by simp
qed

text \<open>
  C6. For every document that is a dict with exactly one key, if the key is not a key of
  the schema table the validator fails with \<open>UnknownClientType\<close>, whatever the value.
\<close>

theorem unknown_client_type:
  "k \<notin> set (map fst VALID_CLIENT)
     \<Longrightarrow> priv_validate_clientsecrets (JObj [(k, v)]) = Inl (UnknownClientType k)"
  by (simp add: priv_validate_clientsecrets_def del: set_map)

theorem unknown_client_type_witness:
  "''service_account'' \<notin> set (map fst VALID_CLIENT)
   \<and> priv_validate_clientsecrets (JObj [(''service_account'', installed_info)])
       = Inl (UnknownClientType ''service_account'')"
proof -
  have h: "''service_account'' \<notin> set (map fst VALID_CLIENT)"
    by (simp add: valid_client_keys del: set_map)
  from h unknown_client_type[OF h, of installed_info] show ?thesis
    by simp
qed

section \<open>Properties of the loaders\<close>

text \<open>\<^verbatim>\<open>_loadfile\<close> on a path: one call of \<^verbatim>\<open>file\<close>, and the outcome by what the path names.\<close>

lemma priv_loadfile_path:
  "priv_loadfile decode (Path p) w =
     (case fs w p of
        OpenFails \<Rightarrow> Inl (FileNotFound p)
      | ReadFails \<Rightarrow> Inl (FileNotFound p)
      | Contents s \<Rightarrow>
          (case decode s of None \<Rightarrow> Inl ValueError | Some obj \<Rightarrow> priv_validate_clientsecrets obj),
      w\<lparr>opened := opened w @ [p]\<rparr>)"
  by (simp add: priv_loadfile_def read_source_def json_loads_def source_str_def Let_def
           split: fs_entry.splits option.splits)

text \<open>\<^verbatim>\<open>_loadfile\<close> and \<^verbatim>\<open>load\<close> on an open stream that can be read.\<close>

lemma priv_loadfile_stream_open:
  "\<not> closed (streams w fp) \<Longrightarrow> unread (streams w fp) = Some s \<Longrightarrow>
   fst (priv_loadfile decode (Stream fp) w) =
     (case decode s of None \<Rightarrow> Inl ValueError | Some obj \<Rightarrow> priv_validate_clientsecrets obj)"
  by (simp add: priv_loadfile_def read_source_def json_load_def stream_read_def json_loads_def
           split: option.splits)

lemma load_stream_open:
  "\<not> closed (streams w fp) \<Longrightarrow> unread (streams w fp) = Some s \<Longrightarrow>
   fst (load decode fp w) =
     (case decode s of None \<Rightarrow> Inl ValueError | Some obj \<Rightarrow> priv_validate_clientsecrets obj)"
  by (simp add: load_def json_load_def stream_read_def json_loads_def split: option.splits)

text \<open>The \<^verbatim>\<open>finally\<close> clause: whatever the outcome, the stream is closed afterwards.\<close>

lemma priv_loadfile_closes:
  "closed (streams (snd (priv_loadfile decode (Stream fp) w)) fp)"
  by (simp add: priv_loadfile_def read_source_def json_load_def stream_read_def stream_close_def
           split: prod.splits sum.splits option.splits)

text \<open>No loader touches a stream's \<^verbatim>\<open>name\<close>, so the cache key is the same before and after.\<close>

lemma json_load_stream_name:
  "stream_name (streams (snd (json_load decode fp w)) a) = stream_name (streams w a)"
  by (auto simp: json_load_def stream_read_def split: prod.splits option.splits)

lemma read_source_stream_name:
  "stream_name (streams (snd (read_source decode src w)) a) = stream_name (streams w a)"
proof (cases src)
  case (Path p)
  then show ?thesis
    by (simp add: read_source_def Let_def split: fs_entry.splits)
next
  case (Stream fp)
  then show ?thesis
    using json_load_stream_name[of decode fp w a]
    by (cases "json_load decode fp w") (auto simp: read_source_def stream_close_def)
qed

lemma priv_loadfile_stream_name:
  "stream_name (streams (snd (priv_loadfile decode src w)) a) = stream_name (streams w a)"
  using read_source_stream_name[of decode src w a]
  by (cases "read_source decode src w") (simp add: priv_loadfile_def split: sum.splits)

lemma priv_loadfile_keeps_name:
  "priv_get_name src (snd (priv_loadfile decode src w)) = priv_get_name src w"
  by (cases src) (simp_all add: priv_get_name_def priv_loadfile_stream_name)

text \<open>The three ways through \<^verbatim>\<open>loadfile\<close>: no cache, a miss, a hit.\<close>

lemma loadfile_no_cache:
  "loadfile decode client src None w =
     (fst (priv_loadfile decode src w), snd (priv_loadfile decode src w), None)"
  by (simp add: loadfile_def split: prod.splits)

lemma loadfile_miss:
  assumes "priv_get_name src w = Inr key" and "cache_get client c key SECRET_NAMESPACE = JNull"
  shows "loadfile decode client src (Some c) w =
     (case priv_loadfile decode src w of
        (Inl e, w') \<Rightarrow> (Inl e, w', Some c)
      | (Inr (client_type, client_info), w') \<Rightarrow>
          (Inr (client_type, client_info), w',
           Some (cache_set client c key (JObj [(client_type, client_info)]) SECRET_NAMESPACE)))"
  using assms priv_loadfile_keeps_name[of src decode w]
  by (auto simp: loadfile_def Let_def split: prod.splits sum.splits)

lemma loadfile_hit:
  assumes "priv_get_name src w = Inr key"
    and "cache_get client c key SECRET_NAMESPACE = JObj (kv # rest)"
  shows "loadfile decode client src (Some c) w = (Inr kv, w, Some c)"
  using assms by (simp add: loadfile_def)

text \<open>The example world, decoder and cache, evaluated.\<close>

lemma example_world_simps:
  "fs example_world ''client_secrets.json'' = Contents installed_text"
  "fs example_world ''broken.json'' = Contents ''{''"
  "fs example_world ''missing.json'' = OpenFails"
  "closed (streams example_world fp) = False"
  "unread (streams example_world 2) = Some ''{''"
  "unread (streams example_world 0) = Some installed_text"
  "stream_name (streams example_world 0) = Some ''client_secrets.json''"
  "unread (streams example_world 3) = Some ''{}''"
  "stream_name (streams example_world 3) = None"
  "opened example_world = []"
  by (simp_all add: example_world_def)

lemma example_decode_simps:
  "example_decode ''{'' = None"
  "example_decode installed_text = Some installed_doc"
  "example_decode ''{}'' = Some (JObj [])"
  by (simp_all add: example_decode_def installed_text_def)

lemma installed_doc_valid:
  "priv_validate_clientsecrets installed_doc = Inr (''installed'', installed_info)"
  by (simp add: installed_doc_def installed_info_def validate_single[OF map_of_valid_client_installed])

lemma table_cache_simps:
  "cache_get table_cache c key ns = c (ns, key)"
  "cache_set table_cache c key v ns = c((ns, key) := v)"
  by (simp_all add: table_cache_def)

text \<open>
  C2. The claim: on a text that is not JSON, every loading operation fails with the
  validation error used for malformed documents, and no parse exception escapes. The code
  has no handler for it: \<^verbatim>\<open>load\<close> and \<^verbatim>\<open>loads\<close> have no \<^verbatim>\<open>try\<close>, and \<^verbatim>\<open>_loadfile\<close> catches
  \<^verbatim>\<open>IOError\<close> only, so the decoder's \<^verbatim>\<open>ValueError\<close> leaves the module as it is.
\<close>

theorem parse_failure_counterexample:
  "loads example_decode ''{'' = Inl ValueError
   \<and> \<not> validation_error (loads example_decode ''{'')"
  by (simp add: loads_def json_loads_def example_decode_simps)

text \<open>
  C2, amended. On a text the decoder rejects, every loading operation fails with the
  decoder's own \<^verbatim>\<open>ValueError\<close>, unwrapped: \<^verbatim>\<open>loads\<close> on the text; \<^verbatim>\<open>load\<close>, \<^verbatim>\<open>_loadfile\<close>
  and \<^verbatim>\<open>loadfile\<close> on an open stream holding it; \<^verbatim>\<open>_loadfile\<close> and \<^verbatim>\<open>loadfile\<close> (without a
  cache, or on a cache miss) on a path whose file holds it.
\<close>

theorem parse_failure_escapes:
  assumes "decode s = None"
  shows "loads decode s = Inl ValueError
     \<and> (\<not> closed (streams w fp) \<and> unread (streams w fp) = Some s \<longrightarrow>
          fst (load decode fp w) = Inl ValueError
          \<and> fst (priv_loadfile decode (Stream fp) w) = Inl ValueError
          \<and> fst (loadfile decode client (Stream fp) None w) = Inl ValueError)
     \<and> (fs w p = Contents s \<longrightarrow>
          fst (priv_loadfile decode (Path p) w) = Inl ValueError
          \<and> fst (loadfile decode client (Path p) None w) = Inl ValueError
          \<and> (cache_get client c p SECRET_NAMESPACE = JNull \<longrightarrow>
               fst (loadfile decode client (Path p) (Some c) w) = Inl ValueError))"
proof -
  have a: "loads decode s = Inl ValueError"
    using assms by (simp add: loads_def json_loads_def)
  have b: "fst (load decode fp w) = Inl ValueError"
          "fst (priv_loadfile decode (Stream fp) w) = Inl ValueError"
          "fst (loadfile decode client (Stream fp) None w) = Inl ValueError"
    if "\<not> closed (streams w fp)" "unread (streams w fp) = Some s"
    using assms load_stream_open[OF that, of decode] priv_loadfile_stream_open[OF that, of decode]
    by (simp_all add: loadfile_no_cache)
  have c: "fst (priv_loadfile decode (Path p) w) = Inl ValueError"
          "fst (loadfile decode client (Path p) None w) = Inl ValueError"
    if "fs w p = Contents s"
    using assms that by (simp_all add: loadfile_no_cache priv_loadfile_path)
  have d: "fst (loadfile decode client (Path p) (Some c) w) = Inl ValueError"
    if "fs w p = Contents s" "cache_get client c p SECRET_NAMESPACE = JNull"
    using assms that loadfile_miss[of "Path p" w p client c decode]
    by (simp add: priv_get_name_def priv_loadfile_path)
  from a b c d show ?thesis by blast
qed

theorem parse_failure_escapes_witness:
  "loads example_decode ''{'' = Inl ValueError
   \<and> fst (load example_decode 2 example_world) = Inl ValueError
   \<and> fst (priv_loadfile example_decode (Stream 2) example_world) = Inl ValueError
   \<and> fst (loadfile example_decode table_cache (Stream 2) None example_world) = Inl ValueError
   \<and> fst (priv_loadfile example_decode (Path ''broken.json'') example_world) = Inl ValueError
   \<and> fst (loadfile example_decode table_cache (Path ''broken.json'') None example_world) = Inl ValueError
   \<and> fst (loadfile example_decode table_cache (Path ''broken.json'') (Some empty_table) example_world)
       = Inl ValueError"
proof -
  have h: "example_decode ''{'' = None"
    by (rule example_decode_simps)
  have g: "cache_get table_cache empty_table ''broken.json'' SECRET_NAMESPACE = JNull"
    by (simp add: table_cache_def empty_table_def)
  from parse_failure_escapes[where decode = example_decode and s = "''{''" and w = example_world
         and fp = 2 and client = table_cache and p = "''broken.json''" and c = empty_table, OF h] g
  show ?thesis
    by (simp add: example_world_simps)
qed

text \<open>
  C7. Cache round trip. Take a source with a name \<open>key\<close> that the loader accepts, giving
  the pair of \<open>client_type\<close> and \<open>client_info\<close>, and a cache whose \<^verbatim>\<open>get\<close> has nothing
  under \<open>key\<close> and returns under \<open>key\<close> what \<^verbatim>\<open>set\<close> stored there. The first call of
  \<^verbatim>\<open>loadfile\<close> returns the validated pair and stores the one-entry dict of it under \<open>key\<close>
  and the module's namespace. A second call with the same key and the updated cache
  returns the same pair and leaves the world as it found it, whatever the world and the
  decoder are: the log of opened paths does not grow, no stream is read, nothing is
  decoded or validated.
\<close>

theorem cache_round_trip:
  assumes "priv_get_name src w = Inr key"
    and "priv_loadfile decode src w = (Inr (client_type, client_info), w1)"
    and "cache_get client c key SECRET_NAMESPACE = JNull"
    and "cache_get client (cache_set client c key (JObj [(client_type, client_info)]) SECRET_NAMESPACE)
           key SECRET_NAMESPACE = JObj [(client_type, client_info)]"
    and "priv_get_name src w2 = Inr key"
  shows "loadfile decode client src (Some c) w =
           (Inr (client_type, client_info), w1,
            Some (cache_set client c key (JObj [(client_type, client_info)]) SECRET_NAMESPACE))
       \<and> loadfile decode2 client src
           (Some (cache_set client c key (JObj [(client_type, client_info)]) SECRET_NAMESPACE)) w2 =
           (Inr (client_type, client_info), w2,
            Some (cache_set client c key (JObj [(client_type, client_info)]) SECRET_NAMESPACE))"
  using loadfile_miss[OF assms(1) assms(3), of decode] assms(2)
    loadfile_hit[OF assms(5) assms(4), of decode2]
  by simp

theorem cache_round_trip_witness:
  "loadfile example_decode table_cache (Path ''client_secrets.json'') (Some empty_table) example_world
     = (Inr (''installed'', installed_info),
        example_world\<lparr>opened := [''client_secrets.json'']\<rparr>,
        Some (empty_table((SECRET_NAMESPACE, ''client_secrets.json'') := installed_doc)))
   \<and> loadfile Map.empty table_cache (Path ''client_secrets.json'')
         (Some (empty_table((SECRET_NAMESPACE, ''client_secrets.json'') := installed_doc)))
         (example_world\<lparr>opened := [''client_secrets.json'']\<rparr>)
     = (Inr (''installed'', installed_info),
        example_world\<lparr>opened := [''client_secrets.json'']\<rparr>,
        Some (empty_table((SECRET_NAMESPACE, ''client_secrets.json'') := installed_doc)))"
proof -
  let ?src = "Path ''client_secrets.json''"
  let ?w1 = "example_world\<lparr>opened := [''client_secrets.json'']\<rparr>"
  have h1: "priv_get_name ?src example_world = Inr ''client_secrets.json''"
    by (simp add: priv_get_name_def)
  have h2: "priv_loadfile example_decode ?src example_world
              = (Inr (''installed'', installed_info), ?w1)"
    by (simp add: priv_loadfile_path example_world_simps example_decode_simps installed_doc_valid)
  have h3: "cache_get table_cache empty_table ''client_secrets.json'' SECRET_NAMESPACE = JNull"
    by (simp add: table_cache_simps empty_table_def)
  have h4: "cache_get table_cache
              (cache_set table_cache empty_table ''client_secrets.json''
                 (JObj [(''installed'', installed_info)]) SECRET_NAMESPACE)
              ''client_secrets.json'' SECRET_NAMESPACE = JObj [(''installed'', installed_info)]"
    by (simp add: table_cache_simps)
  have h5: "priv_get_name ?src ?w1 = Inr ''client_secrets.json''"
    by (simp add: priv_get_name_def)
  from cache_round_trip[OF h1 h2 h3 h4 h5, of Map.empty] show ?thesis
    by (simp add: table_cache_simps installed_doc_def)
qed

text \<open>
  C8. The claim: whenever the cache's \<^verbatim>\<open>get\<close> returns an empty result, \<^verbatim>\<open>loadfile\<close> calls
  the loader, stores the outcome and returns it, for every empty result. The code tests
  \<^verbatim>\<open>obj is None\<close>: an empty dict from \<^verbatim>\<open>get\<close> is not a miss, the loader is not called
  (the world is unchanged, nothing is stored), and \<^verbatim>\<open>obj.iteritems().next()\<close> raises
  \<^verbatim>\<open>StopIteration\<close>.
\<close>

theorem cache_empty_mapping_counterexample:
  "loadfile example_decode table_cache (Path ''client_secrets.json'')
     (Some (empty_table((SECRET_NAMESPACE, ''client_secrets.json'') := JObj []))) example_world
   = (Inl StopIteration, example_world,
      Some (empty_table((SECRET_NAMESPACE, ''client_secrets.json'') := JObj [])))"
  by (simp add: loadfile_def priv_get_name_def table_cache_simps)

text \<open>
  C8, amended. Whenever the cache's \<^verbatim>\<open>get\<close> returns \<^verbatim>\<open>None\<close> for the source's name,
  \<^verbatim>\<open>loadfile\<close> calls the loader; if the loader succeeds, the one-entry dict of the
  validated pair is stored under the same key and namespace and the pair is returned; if
  it fails, its exception is passed on and the cache is left as it was.
\<close>

theorem cache_miss_loads_and_stores:
  assumes "priv_get_name src w = Inr key"
    and "cache_get client c key SECRET_NAMESPACE = JNull"
  shows "(priv_loadfile decode src w = (Inr (client_type, client_info), w') \<longrightarrow>
            loadfile decode client src (Some c) w =
              (Inr (client_type, client_info), w',
               Some (cache_set client c key (JObj [(client_type, client_info)]) SECRET_NAMESPACE)))
       \<and> (priv_loadfile decode src w = (Inl e, w') \<longrightarrow>
            loadfile decode client src (Some c) w = (Inl e, w', Some c))"
  using loadfile_miss[OF assms, of decode] by simp

theorem cache_miss_loads_and_stores_witness:
  "fst (loadfile example_decode table_cache (Stream 0) (Some empty_table) example_world)
     = Inr (''installed'', installed_info)
   \<and> snd (snd (loadfile example_decode table_cache (Stream 0) (Some empty_table) example_world))
     = Some (empty_table((SECRET_NAMESPACE, ''client_secrets.json'') := installed_doc))
   \<and> loadfile example_decode table_cache (Path ''missing.json'') (Some empty_table) example_world
     = (Inl (FileNotFound ''missing.json''),
        example_world\<lparr>opened := [''missing.json'']\<rparr>, Some empty_table)"
proof -
  let ?w' = "snd (priv_loadfile example_decode (Stream 0) example_world)"
  have h1: "priv_get_name (Stream 0) example_world = Inr ''client_secrets.json''"
    by (simp add: priv_get_name_def example_world_simps)
  have h2: "cache_get table_cache empty_table ''client_secrets.json'' SECRET_NAMESPACE = JNull"
    by (simp add: table_cache_simps empty_table_def)
  have "fst (priv_loadfile example_decode (Stream 0) example_world) = Inr (''installed'', installed_info)"
    by (simp add: priv_loadfile_stream_open[of example_world 0 installed_text]
          example_world_simps example_decode_simps installed_doc_valid)
  then have h3: "priv_loadfile example_decode (Stream 0) example_world
                   = (Inr (''installed'', installed_info), ?w')"
    by (simp add: prod_eq_iff)
  have g1: "priv_get_name (Path ''missing.json'') example_world = Inr ''missing.json''"
    by (simp add: priv_get_name_def)
  have g2: "cache_get table_cache empty_table ''missing.json'' SECRET_NAMESPACE = JNull"
    by (simp add: table_cache_simps empty_table_def)
  have g3: "priv_loadfile example_decode (Path ''missing.json'') example_world
              = (Inl (FileNotFound ''missing.json''), example_world\<lparr>opened := [''missing.json'']\<rparr>)"
    by (simp add: priv_loadfile_path example_world_simps)
  from cache_miss_loads_and_stores[OF h1 h2, of example_decode "''installed''" installed_info ?w'] h3
  have a: "loadfile example_decode table_cache (Stream 0) (Some empty_table) example_world
             = (Inr (''installed'', installed_info), ?w',
                Some (empty_table((SECRET_NAMESPACE, ''client_secrets.json'') := installed_doc)))"
    by (simp add: table_cache_simps installed_doc_def)
  from cache_miss_loads_and_stores[OF g1 g2, of example_decode _ _
         "example_world\<lparr>opened := [''missing.json'']\<rparr>" "FileNotFound ''missing.json''"] g3
  have b: "loadfile example_decode table_cache (Path ''missing.json'') (Some empty_table) example_world
             = (Inl (FileNotFound ''missing.json''),
                example_world\<lparr>opened := [''missing.json'']\<rparr>, Some empty_table)"
    by simp
  from a b show ?thesis by simp
qed

text \<open>
  C9. For every path whose opening or reading raises \<^verbatim>\<open>IOError\<close>, \<^verbatim>\<open>_loadfile\<close>, and
  \<^verbatim>\<open>loadfile\<close> without a cache or on a cache miss, fail with \<open>FileNotFound\<close> naming the
  path; and from every open stream holding a text that decodes to a valid document,
  loading succeeds with the validated pair.
\<close>

theorem io_failure_file_not_found:
  "(fs w p = OpenFails \<or> fs w p = ReadFails \<longrightarrow>
      fst (priv_loadfile decode (Path p) w) = Inl (FileNotFound p)
      \<and> fst (loadfile decode client (Path p) None w) = Inl (FileNotFound p)
      \<and> (cache_get client c p SECRET_NAMESPACE = JNull \<longrightarrow>
           fst (loadfile decode client (Path p) (Some c) w) = Inl (FileNotFound p)))
   \<and> (\<not> closed (streams w fp) \<and> unread (streams w fp) = Some s \<and> decode s = Some obj
        \<and> priv_validate_clientsecrets obj = Inr r \<longrightarrow>
      fst (priv_loadfile decode (Stream fp) w) = Inr r
      \<and> fst (loadfile decode client (Stream fp) None w) = Inr r
      \<and> fst (load decode fp w) = Inr r)"
proof -
  have a: "fst (priv_loadfile decode (Path p) w) = Inl (FileNotFound p)"
    if "fs w p = OpenFails \<or> fs w p = ReadFails"
    using that by (auto simp: priv_loadfile_path)
  have b: "fst (loadfile decode client (Path p) (Some c) w) = Inl (FileNotFound p)"
    if "fs w p = OpenFails \<or> fs w p = ReadFails" "cache_get client c p SECRET_NAMESPACE = JNull"
    using that loadfile_miss[of "Path p" w p client c decode]
    by (auto simp: priv_get_name_def priv_loadfile_path)
  have c: "fst (priv_loadfile decode (Stream fp) w) = Inr r" "fst (load decode fp w) = Inr r"
    if "\<not> closed (streams w fp)" "unread (streams w fp) = Some s" "decode s = Some obj"
       "priv_validate_clientsecrets obj = Inr r"
    using that priv_loadfile_stream_open[of w fp s decode] load_stream_open[of w fp s decode]
    by simp_all
  from a b c show ?thesis
    by (simp add: loadfile_no_cache)
qed

theorem io_failure_file_not_found_witness:
  "fst (priv_loadfile example_decode (Path ''missing.json'') example_world)
     = Inl (FileNotFound ''missing.json'')
   \<and> fst (loadfile example_decode table_cache (Path ''missing.json'') None example_world)
     = Inl (FileNotFound ''missing.json'')
   \<and> fst (loadfile example_decode table_cache (Path ''missing.json'') (Some empty_table) example_world)
     = Inl (FileNotFound ''missing.json'')
   \<and> fst (priv_loadfile example_decode (Stream 1) example_world) = Inr (''installed'', installed_info)
   \<and> fst (loadfile example_decode table_cache (Stream 1) None example_world)
     = Inr (''installed'', installed_info)
   \<and> fst (load example_decode 1 example_world) = Inr (''installed'', installed_info)"
proof -
  have h1: "fs example_world ''missing.json'' = OpenFails \<or> fs example_world ''missing.json'' = ReadFails"
    by (simp add: example_world_simps)
  have h2: "cache_get table_cache empty_table ''missing.json'' SECRET_NAMESPACE = JNull"
    by (simp add: table_cache_simps empty_table_def)
  have h3: "\<not> closed (streams example_world 1) \<and> unread (streams example_world 1) = Some installed_text
            \<and> example_decode installed_text = Some installed_doc
            \<and> priv_validate_clientsecrets installed_doc = Inr (''installed'', installed_info)"
    by (simp add: example_world_def example_decode_simps installed_doc_valid)
  from io_failure_file_not_found[where w = example_world and p = "''missing.json''"
         and decode = example_decode and client = table_cache and c = empty_table and fp = 1
         and s = installed_text and obj = installed_doc and r = "(''installed'', installed_info)"]
       h1 h2 h3
  show ?thesis by blast
qed

text \<open>
  C10. Every stream handed to \<^verbatim>\<open>_loadfile\<close>, directly or through \<^verbatim>\<open>loadfile\<close> (without a
  cache, or on a cache miss), is closed when the call is over, whatever the outcome:
  success, a decoding failure or a validation failure.
\<close>

theorem stream_closed_after_loadfile:
  "closed (streams (snd (priv_loadfile decode (Stream fp) w)) fp)
   \<and> closed (streams (fst (snd (loadfile decode client (Stream fp) None w))) fp)
   \<and> (priv_get_name (Stream fp) w = Inr key \<and> cache_get client c key SECRET_NAMESPACE = JNull \<longrightarrow>
        closed (streams (fst (snd (loadfile decode client (Stream fp) (Some c) w))) fp))"
proof -
  have a: "closed (streams (snd (priv_loadfile decode (Stream fp) w)) fp)"
    by (rule priv_loadfile_closes)
  have b: "closed (streams (fst (snd (loadfile decode client (Stream fp) (Some c) w))) fp)"
    if "priv_get_name (Stream fp) w = Inr key" "cache_get client c key SECRET_NAMESPACE = JNull"
    using a loadfile_miss[OF that, of decode]
    by (cases "priv_loadfile decode (Stream fp) w") (auto split: sum.splits)
  from a b show ?thesis
    by (simp add: loadfile_no_cache)
qed

theorem stream_closed_after_loadfile_witness:
  "closed (streams (snd (priv_loadfile example_decode (Stream 0) example_world)) 0)
   \<and> fst (priv_loadfile example_decode (Stream 0) example_world) = Inr (''installed'', installed_info)
   \<and> closed (streams (snd (priv_loadfile example_decode (Stream 2) example_world)) 2)
   \<and> fst (priv_loadfile example_decode (Stream 2) example_world) = Inl ValueError
   \<and> closed (streams (snd (priv_loadfile example_decode (Stream 3) example_world)) 3)
   \<and> fst (priv_loadfile example_decode (Stream 3) example_world) = Inl MalformedDocument
   \<and> closed (streams (fst (snd (loadfile example_decode table_cache (Stream 0)
                                   (Some empty_table) example_world))) 0)"
proof -
  have h1: "priv_get_name (Stream 0) example_world = Inr ''client_secrets.json''
            \<and> cache_get table_cache empty_table ''client_secrets.json'' SECRET_NAMESPACE = JNull"
    by (simp add: priv_get_name_def example_world_simps table_cache_simps empty_table_def)
  have r0: "fst (priv_loadfile example_decode (Stream 0) example_world) = Inr (''installed'', installed_info)"
    by (simp add: priv_loadfile_stream_open[of example_world 0 installed_text]
          example_world_simps example_decode_simps installed_doc_valid)
  have r2: "fst (priv_loadfile example_decode (Stream 2) example_world) = Inl ValueError"
    by (simp add: priv_loadfile_stream_open[of example_world 2 "''{''"]
          example_world_simps example_decode_simps)
  have r3: "fst (priv_loadfile example_decode (Stream 3) example_world) = Inl MalformedDocument"
    by (simp add: priv_loadfile_stream_open[of example_world 3 "''{}''"]
          example_world_simps example_decode_simps validate_malformed)
  from stream_closed_after_loadfile[of example_decode 0 example_world table_cache
         "''client_secrets.json''" empty_table]
       stream_closed_after_loadfile[of example_decode 2 example_world table_cache "[]" empty_table]
       stream_closed_after_loadfile[of example_decode 3 example_world table_cache "[]" empty_table]
       h1 r0 r2 r3
  show ?thesis by blast
qed

end
